theory Spec2Isabelle
  imports Main "HOL-Library.AList" "HOL-Library.Sublist"
begin

section \<open>JavaScript values and the object store\<close>

text \<open>
  Values of the program are JavaScript values. Objects are mutable and shared, so an
  object is a cell of an explicit store and a value refers to it by address
  (\<open>JRef\<close>). An object is the list of its own enumerable properties, in insertion
  order. A string is the list of its code units, here bytes. A number is an integer that
  JavaScript represents exactly and prints in decimal; fractions, \<open>NaN\<close> and the
  infinities are left out, as the logger computes with no number.
\<close>

type_synonym addr = nat

datatype jsval = JUndefined | JNull | JBool bool | JNum int | JStr string | JRef addr

type_synonym obj = "(string \<times> jsval) list"

type_synonym heap = "obj list"

text \<open>Truthiness, as tested by \<open>!x\<close>, \<open>x ? a : b\<close> and \<open>x || y\<close>.\<close>

fun truthy :: "jsval \<Rightarrow> bool" where
  "truthy JUndefined = False"
| "truthy JNull = False"
| "truthy (JBool b) = b"
| "truthy (JNum n) = (n \<noteq> 0)"
| "truthy (JStr s) = (s \<noteq> [])"
| "truthy (JRef a) = True"

definition js_or :: "jsval \<Rightarrow> jsval \<Rightarrow> jsval" where
  "js_or a b = (if truthy a then a else b)"

text \<open>Decimal digits of a natural number, for property indices and number conversion.\<close>

function show_nat :: "nat \<Rightarrow> string" where
  "show_nat n =
     (if n < 10 then [''0123456789'' ! n]
      else show_nat (n div 10) @ [''0123456789'' ! (n mod 10)])"
  by pat_completeness auto
termination
  by (relation "measure id") auto

declare show_nat.simps [simp del]

text \<open>
  String conversion of a template literal \<open>`${v}`\<close>. A store object is a plain object,
  which converts to \<open>[object Object]\<close>.
  A number is taken below \<open>10^21\<close> in magnitude, where the conversion is
  the decimal numeral; from there on JavaScript prints an exponent.
\<close>

fun to_str :: "jsval \<Rightarrow> string" where
  "to_str JUndefined = ''undefined''"
| "to_str JNull = ''null''"
| "to_str (JBool b) = (if b then ''true'' else ''false'')"
| "to_str (JNum i) = (if i < 0 then ''-'' else []) @ show_nat (nat \<bar>i\<bar>)"
| "to_str (JStr s) = s"
| "to_str (JRef a) = ''[object Object]''"

text \<open>Property read \<open>o.k\<close> on a property list: \<open>undefined\<close> when the key is absent.\<close>

definition js_get :: "obj \<Rightarrow> string \<Rightarrow> jsval" where
  "js_get ob k = (case map_of ob k of None \<Rightarrow> JUndefined | Some v \<Rightarrow> v)"

text \<open>
  The store. Addresses are handed out by \<open>alloc\<close> only, so a reference is always in
  range; reading an address that was never allocated yields the empty object.
\<close>

definition deref :: "heap \<Rightarrow> addr \<Rightarrow> obj" where
  "deref h a = (if a < length h then h ! a else [])"

definition alloc :: "heap \<Rightarrow> obj \<Rightarrow> addr \<times> heap" where
  "alloc h ob = (length h, h @ [ob])"

text \<open>Property write \<open>o.k = v\<close> on the object at an address.\<close>

definition store_prop :: "heap \<Rightarrow> addr \<Rightarrow> string \<Rightarrow> jsval \<Rightarrow> heap" where
  "store_prop h a k v = h[a := AList.update k v (deref h a)]"

text \<open>
  Own enumerable properties of a value used as a source of \<open>Object.assign\<close>: the
  properties of an object, the indexed characters of a string, nothing otherwise.
\<close>

definition own_props :: "heap \<Rightarrow> jsval \<Rightarrow> obj" where
  "own_props h v =
     (case v of
        JRef a \<Rightarrow> deref h a
      | JStr s \<Rightarrow> map (\<lambda>(i, c). (show_nat i, JStr [c])) (enumerate 0 s)
      | _ \<Rightarrow> [])"

text \<open>\<open>Object.assign(target, source)\<close> on property lists: each source property is set on
  the target, in order.\<close>

definition object_assign :: "obj \<Rightarrow> obj \<Rightarrow> obj" where
  "object_assign target source = fold (\<lambda>(k, v). AList.update k v) source target"

text \<open>Array destructuring \<open>[a, b, ...] = xs\<close>: a missing position is \<open>undefined\<close>.\<close>

definition element :: "jsval list \<Rightarrow> nat \<Rightarrow> jsval" where
  "element xs i = (if i < length xs then xs ! i else JUndefined)"

section \<open>The logger and its surroundings\<close>

text \<open>The variables of \<open>process.env\<close> that the module reads; an unset one is \<open>None\<close>.\<close>

record env =
  LOG_LEVEL :: "string option"
  LOG_LIMIT :: "string option"
  LOG_NAMESPACES :: "string option"
  APP_NAME :: "string option"
  LOGS_PRETTY_PRINT :: "string option"

definition env_var :: "string option \<Rightarrow> jsval" where
  "env_var x = (case x of None \<Rightarrow> JUndefined | Some s \<Rightarrow> JStr s)"

text \<open>The table of level names exported by \<open>./levels\<close>, which the logger only reads.\<close>

record levels =
  level_debug :: jsval
  level_error :: jsval
  level_warn :: jsval
  level_log :: jsval

text \<open>The two values the \<open>format\<close> field can hold, and a reference to an emit method
  (the \<open>log\<close> field holds one).\<close>

datatype formatter = PrettyPrint | Stringify

datatype emit_method = Method_info | Method_warn | Method_error | Method_debug

text \<open>
  Modelled from the spec: the class \<open>Serializer\<close> of \<open>./serializer\<close> is not part of the
  sources at hand. The spec describes a Serializer bound to the logger's context and
  size limit; the object is modelled as holding the three arguments of its constructor,
  the first being a reference to the object literal built for it.
\<close>

record serializer =
  s_contextData :: jsval
  s_namespace :: jsval
  s_logLimit :: jsval

record logger =
  contextData :: addr
  format :: formatter
  log :: emit_method
  logFormat :: jsval
  logLevel :: jsval
  logLimit :: jsval
  logPatterns :: jsval
  namespace :: jsval
  serializer :: serializer

text \<open>The active domain of Node's \<open>domain\<close> module: its \<open>logger\<close> property holds a logger
  or is \<open>undefined\<close>.\<close>

record active_domain =
  domain_logger :: "logger option"

text \<open>Everything an operation of the logger can read or change.\<close>

record world =
  heap :: heap
  console :: "string list"
  env :: env
  active :: "active_domain option"

text \<open>
  The modules the logger requires and that are not part of the sources at hand are
  parameters: the level table, the environment at the time the module was loaded (the
  defaults are computed then), the level filter, the namespace matcher, the serializer's
  \<open>serialize\<close> method, the event formatter, and the two library renderers. Each is a
  function of the world and its arguments: a call returns a value and changes nothing.
  An event is a record, given by its property list.
\<close>

record modules =
  loggerLevels :: levels
  load_env :: env
  logLevelFilter :: "world \<Rightarrow> jsval \<Rightarrow> jsval \<Rightarrow> jsval"
  isEnabled :: "world \<Rightarrow> jsval \<Rightarrow> jsval \<Rightarrow> jsval"
  serialize :: "world \<Rightarrow> serializer \<Rightarrow> jsval \<Rightarrow> jsval \<Rightarrow> jsval \<Rightarrow> obj"
  eventFormatter :: "world \<Rightarrow> obj \<Rightarrow> jsval \<Rightarrow> obj"
  stringify :: "world \<Rightarrow> obj \<Rightarrow> string"
  prettyjson_render :: "world \<Rightarrow> obj \<Rightarrow> obj \<Rightarrow> string"

subsection \<open>Pretty printing\<close>

definition PrettyJsonDefaultOptions :: obj where
  "PrettyJsonDefaultOptions = [(''defaultIndentation'', JNum 4), (''inlineArrays'', JNum 1)]"

definition omit :: "obj \<Rightarrow> string list \<Rightarrow> obj" where
  "omit ob ks = filter (\<lambda>(k, v). k \<notin> set ks) ob"

text \<open>\<open>s.replace(/\n/g, '\n\t')\<close>\<close>

definition indent_lines :: "string \<Rightarrow> string" where
  "indent_lines s = concat (map (\<lambda>c. if c = CHR 0x0A then [CHR 0x0A, CHR 0x09] else [c]) s)"

definition prettyPrint :: "modules \<Rightarrow> world \<Rightarrow> obj \<Rightarrow> string" where
  "prettyPrint md w event =
     (let header = ''['' @ to_str (js_get event ''timestamp'') @ '']: [''
                     @ to_str (js_get event ''message'') @ '']'';
          eventDetails = omit event [''timestamp'', ''message''];
          body = indent_lines (prettyjson_render md w eventDetails PrettyJsonDefaultOptions)
      in [CHR 0x0A] @ header @ [CHR 0x0A, CHR 0x09] @ body @ [CHR 0x0A, CHR 0x0A])"

definition apply_format :: "modules \<Rightarrow> formatter \<Rightarrow> world \<Rightarrow> obj \<Rightarrow> string" where
  "apply_format md f w event =
     (case f of PrettyPrint \<Rightarrow> prettyPrint md w event | Stringify \<Rightarrow> stringify md w event)"

subsection \<open>Construction\<close>

definition DEFAULT_LOGGER_ATTRIBUTES :: "modules \<Rightarrow> obj" where
  "DEFAULT_LOGGER_ATTRIBUTES md =
     [(''logLevel'', js_or (env_var (LOG_LEVEL (load_env md))) (level_error (loggerLevels md))),
      (''logLimit'', js_or (env_var (LOG_LIMIT (load_env md))) (JNum 7000)),
      (''logPatterns'', js_or (env_var (LOG_NAMESPACES (load_env md))) JUndefined),
      (''namespace'', JStr [])]"

definition normalizeArguments :: "modules \<Rightarrow> heap \<Rightarrow> jsval \<Rightarrow> jsval list \<Rightarrow> obj" where
  "normalizeArguments md h options extraParameters =
     (if \<not> truthy options then DEFAULT_LOGGER_ATTRIBUTES md
      else if length extraParameters = 0
        then object_assign (object_assign [] (DEFAULT_LOGGER_ATTRIBUTES md)) (own_props h options)
      else
        [(''context'', options),
         (''logLevel'', element extraParameters 3),
         (''logLimit'', element extraParameters 2),
         (''logPatterns'', element extraParameters 1),
         (''namespace'', element extraParameters 0)])"

text \<open>
  \<open>new Logger(options, ...extraParameters)\<close>. The constructor builds two object literals
  \<open>{ context, name }\<close>: one becomes \<open>contextData\<close>, the other is handed to the serializer.
\<close>

definition new_Logger :: "modules \<Rightarrow> jsval \<Rightarrow> jsval list \<Rightarrow> world \<Rightarrow> logger \<times> world" where
  "new_Logger md options extraParameters w =
     (let a = normalizeArguments md (heap w) options extraParameters;
          name = env_var (APP_NAME (env w));
          (cd, h1) = alloc (heap w) [(''context'', js_get a ''context''), (''name'', name)];
          (scd, h2) = alloc h1 [(''context'', js_get a ''context''), (''name'', name)]
      in (\<lparr> contextData = cd,
            format = (if truthy (env_var (LOGS_PRETTY_PRINT (env w))) then PrettyPrint else Stringify),
            log = Method_info,
            logFormat = js_get a ''logFormat'',
            logLevel = js_get a ''logLevel'',
            logLimit = js_get a ''logLimit'',
            logPatterns = js_get a ''logPatterns'',
            namespace = js_get a ''namespace'',
            serializer = \<lparr> s_contextData = JRef scd,
                           s_namespace = js_get a ''namespace'',
                           s_logLimit = js_get a ''logLimit'' \<rparr> \<rparr>,
          w\<lparr>heap := h2\<rparr>))"

definition createChildLogger :: "modules \<Rightarrow> logger \<Rightarrow> jsval \<Rightarrow> world \<Rightarrow> logger \<times> world" where
  "createChildLogger md this ns w =
     (let prefix = (if truthy (namespace this) then to_str (namespace this) @ '':'' else []);
          (options, h1) = alloc (heap w)
             [(''context'', js_get (deref (heap w) (contextData this)) ''context''),
              (''logPatterns'', logPatterns this),
              (''namespace'', JStr (prefix @ to_str ns))]
      in new_Logger md (JRef options) [] (w\<lparr>heap := h1\<rparr>))"

subsection \<open>Emission\<close>

definition shouldSuppressOutput :: "modules \<Rightarrow> logger \<Rightarrow> jsval \<Rightarrow> world \<Rightarrow> bool" where
  "shouldSuppressOutput md this outputType w =
     list_ex (\<lambda>response. response \<noteq> JBool True)
       [logLevelFilter md w (logLevel this) outputType,
        isEnabled md w (namespace this) (logPatterns this)]"

text \<open>The default of the third parameter applies when the argument is \<open>undefined\<close>.\<close>

definition "output" :: "modules \<Rightarrow> logger \<Rightarrow> jsval \<Rightarrow> jsval \<Rightarrow> jsval \<Rightarrow> world \<Rightarrow> world" where
  "output md this message additionalArguments outputType0 w =
     (let outputType = (if outputType0 = JUndefined then level_log (loggerLevels md) else outputType0)
      in if shouldSuppressOutput md this outputType w then w
         else
           (let event = serialize md w (serializer this) message additionalArguments outputType;
                formattedEvent = eventFormatter md w event (logFormat this)
            in w\<lparr>console := console w @ [apply_format md (format this) w formattedEvent]\<rparr>))"

text \<open>The default \<open>additionalArguments = {}\<close> of the emit methods: a new empty object when
  the argument is \<open>undefined\<close>.\<close>

definition default_arguments :: "jsval \<Rightarrow> world \<Rightarrow> jsval \<times> world" where
  "default_arguments v w =
     (if v = JUndefined then (let (a, h1) = alloc (heap w) [] in (JRef a, w\<lparr>heap := h1\<rparr>))
      else (v, w))"

definition info :: "modules \<Rightarrow> logger \<Rightarrow> jsval \<Rightarrow> jsval \<Rightarrow> world \<Rightarrow> world" where
  "info md this message additionalArguments0 w =
     (let (additionalArguments, w1) = default_arguments additionalArguments0 w
      in output md this message additionalArguments JUndefined w1)"

definition warn :: "modules \<Rightarrow> logger \<Rightarrow> jsval \<Rightarrow> jsval \<Rightarrow> world \<Rightarrow> world" where
  "warn md this message additionalArguments0 w =
     (let (additionalArguments, w1) = default_arguments additionalArguments0 w
      in output md this message additionalArguments (level_warn (loggerLevels md)) w1)"

definition error :: "modules \<Rightarrow> logger \<Rightarrow> jsval \<Rightarrow> jsval \<Rightarrow> world \<Rightarrow> world" where
  "error md this message additionalArguments0 w =
     (let (additionalArguments, w1) = default_arguments additionalArguments0 w
      in output md this message additionalArguments (level_error (loggerLevels md)) w1)"

definition debug :: "modules \<Rightarrow> logger \<Rightarrow> jsval \<Rightarrow> jsval \<Rightarrow> world \<Rightarrow> world" where
  "debug md this message additionalArguments0 w =
     (let (additionalArguments, w1) = default_arguments additionalArguments0 w
      in output md this message additionalArguments (level_debug (loggerLevels md)) w1)"

text \<open>A call \<open>logger.log(message, extra)\<close> through the \<open>log\<close> field invokes the method the
  field refers to, with the logger as \<open>this\<close>.\<close>

definition invoke :: "emit_method \<Rightarrow> modules \<Rightarrow> logger \<Rightarrow> jsval \<Rightarrow> jsval \<Rightarrow> world \<Rightarrow> world" where
  "invoke m = (case m of Method_info \<Rightarrow> info | Method_warn \<Rightarrow> warn
                 | Method_error \<Rightarrow> error | Method_debug \<Rightarrow> debug)"

subsection \<open>Session identifier and the current logger\<close>

text \<open>\<open>this.contextData.context = Object.assign({}, this.contextData.context, { sessionId })\<close>\<close>

definition setSessionId :: "logger \<Rightarrow> jsval \<Rightarrow> world \<Rightarrow> world" where
  "setSessionId this sessionId w =
     (let cd = contextData this;
          merged = object_assign
                     (object_assign [] (own_props (heap w) (js_get (deref (heap w) cd) ''context'')))
                     [(''sessionId'', sessionId)];
          (m, h1) = alloc (heap w) merged
      in w\<lparr>heap := store_prop h1 cd ''context'' (JRef m)\<rparr>)"

text \<open>\<open>Logger.current()\<close>; \<open>None\<close> is the result \<open>undefined\<close>.\<close>

definition current :: "modules \<Rightarrow> world \<Rightarrow> logger option \<times> world" where
  "current md w =
     (case active w of
        None \<Rightarrow> (let (l, w1) = new_Logger md JUndefined [] w in (Some l, w1))
      | Some d \<Rightarrow> (domain_logger d, w))"

section \<open>Statements about the logger\<close>

text \<open>
  The severity \<open>output\<close> works with: its third parameter, or its default when the
  argument is \<open>undefined\<close>.
\<close>

definition effective_level :: "modules \<Rightarrow> jsval \<Rightarrow> jsval" where
  "effective_level md outputType =
     (if outputType = JUndefined then level_log (loggerLevels md) else outputType)"

text \<open>
  The level filter allows the severity and the namespace matcher enables the logger's
  namespace under its pattern expression. The logger accepts an answer only when it is
  the value \<open>true\<close>.
\<close>

definition both_allow :: "modules \<Rightarrow> logger \<Rightarrow> jsval \<Rightarrow> world \<Rightarrow> bool" where
  "both_allow md this outputType w \<longleftrightarrow>
     logLevelFilter md w (logLevel this) outputType = JBool True
     \<and> isEnabled md w (namespace this) (logPatterns this) = JBool True"

text \<open>
  The line written for an event: serialized, formatted, rendered by the \<open>format\<close> field.
\<close>

definition event_line :: "modules \<Rightarrow> logger \<Rightarrow> jsval \<Rightarrow> jsval \<Rightarrow> jsval \<Rightarrow> world \<Rightarrow> string" where
  "event_line md this message extra outputType w =
     apply_format md (format this) w
       (eventFormatter md w (serialize md w (serializer this) message extra outputType)
          (logFormat this))"

text \<open>
  What an emission at a given severity does to the world when both filters are asked there.
\<close>

definition emit_at :: "modules \<Rightarrow> logger \<Rightarrow> jsval \<Rightarrow> jsval \<Rightarrow> jsval \<Rightarrow> world \<Rightarrow> world" where
  "emit_at md this message extra outputType w =
     (if both_allow md this outputType w
      then w\<lparr>console := console w @ [event_line md this message extra outputType w]\<rparr>
      else w)"

text \<open>
  A logger and a store fit together when the logger's two \<open>{ context, name }\<close> objects are
  allocated and distinct, as the constructor leaves them.
\<close>

definition logger_ok :: "logger \<Rightarrow> world \<Rightarrow> bool" where
  "logger_ok this w =
     (contextData this < length (heap w)
      \<and> (case s_contextData (serializer this) of
            JRef scd \<Rightarrow> scd < length (heap w) \<and> scd \<noteq> contextData this
          | _ \<Rightarrow> False))"

text \<open>
  The namespace \<open>createChildLogger\<close> builds from the parent's namespace and the suffix.
\<close>

definition child_namespace :: "jsval \<Rightarrow> jsval \<Rightarrow> string" where
  "child_namespace parent ns =
     (if truthy parent then to_str parent @ '':'' @ to_str ns else to_str ns)"

section \<open>The modules that are not part of the sources\<close>

subsection \<open>Namespace matcher\<close>

text \<open>
  Modelled from the spec: the module \<open>./is-enabled\<close> is missing. A pattern expression is a
  comma-separated list of terms; this splits it at the commas.
\<close>

fun split_on :: "char \<Rightarrow> string \<Rightarrow> string list" where
  "split_on c [] = [[]]"
| "split_on c (x # xs) =
     (if x = c then [] # split_on c xs
      else (case split_on c xs of [] \<Rightarrow> [[x]] | t # ts \<Rightarrow> (x # t) # ts))"

text \<open>
  Modelled from the spec: the module \<open>./is-enabled\<close> is missing. A compiled term requires exact
  equality, or a prefix when the term ends in the wildcard.
\<close>

datatype matcher = Exact string | Prefix string

text \<open>
  Modelled from the spec: the module \<open>./is-enabled\<close> is missing. A term ending in \<open>*\<close> requires
  the namespace to start with what precedes the \<open>*\<close>; any other term requires equality.
\<close>

definition compile_term :: "string \<Rightarrow> matcher" where
  "compile_term t = (if t \<noteq> [] \<and> last t = CHR ''*'' then Prefix (butlast t) else Exact t)"

text \<open>
  Modelled from the spec: the module \<open>./is-enabled\<close> is missing. Whether a namespace matches a
  compiled term.
\<close>

fun matches :: "matcher \<Rightarrow> string \<Rightarrow> bool" where
  "matches (Exact t) ns = (ns = t)"
| "matches (Prefix p) ns = (take (length p) ns = p)"

text \<open>
  Modelled from the spec: the module \<open>./is-enabled\<close> is missing. The compiled form is a pair of
  ordered sequences of matchers: inclusions, and exclusions (terms prefixed with \<open>-\<close>). An
  empty term is skipped.
\<close>

fun compile_terms :: "string list \<Rightarrow> matcher list \<times> matcher list" where
  "compile_terms [] = ([], [])"
| "compile_terms (t # ts) =
     (let (inclusions, exclusions) = compile_terms ts
      in if t = [] then (inclusions, exclusions)
         else if hd t = CHR ''-'' then (inclusions, compile_term (tl t) # exclusions)
         else (compile_term t # inclusions, exclusions))"

text \<open>
  Modelled from the spec: the module \<open>./is-enabled\<close> is missing. Compilation of a pattern
  expression.
\<close>

definition compile_patterns :: "string \<Rightarrow> matcher list \<times> matcher list" where
  "compile_patterns e = compile_terms (split_on CHR '','' e)"

text \<open>
  Modelled from the spec: the module \<open>./is-enabled\<close> is missing. A namespace is enabled iff no
  inclusion exists or it matches one, and it matches no exclusion; an absent pattern
  expression (\<open>None\<close>) enables every namespace.
\<close>

definition isEnabled_spec :: "string \<Rightarrow> string option \<Rightarrow> bool" where
  "isEnabled_spec ns patterns =
     (case patterns of
        None \<Rightarrow> True
      | Some e \<Rightarrow>
          (let (inclusions, exclusions) = compile_patterns e
           in (inclusions = [] \<or> list_ex (\<lambda>m. matches m ns) inclusions)
              \<and> \<not> list_ex (\<lambda>m. matches m ns) exclusions))"

text \<open>
  The words of the claim, to compare the matcher with: the terms of an expression, those
  that include, those that exclude (without their \<open>-\<close>), and when a term matches.
\<close>

definition pattern_terms :: "string \<Rightarrow> string list" where
  "pattern_terms e = filter (\<lambda>t. t \<noteq> []) (split_on CHR '','' e)"

definition inclusion_terms :: "string \<Rightarrow> string list" where
  "inclusion_terms e = filter (\<lambda>t. hd t \<noteq> CHR ''-'') (pattern_terms e)"

definition exclusion_terms :: "string \<Rightarrow> string list" where
  "exclusion_terms e = map tl (filter (\<lambda>t. hd t = CHR ''-'') (pattern_terms e))"

definition term_matches :: "string \<Rightarrow> string \<Rightarrow> bool" where
  "term_matches t ns =
     (if t \<noteq> [] \<and> last t = CHR ''*'' then prefix (butlast t) ns else ns = t)"

subsection \<open>Level filter\<close>

text \<open>
  Modelled from the spec: the modules \<open>./levels\<close> and \<open>./log-level-filter\<close> are missing. The
  severities, in the order the spec's glossary gives them.
\<close>

datatype severity = Debug | Log | Info | Warn | Error

text \<open>
  Modelled from the spec: the module \<open>./levels\<close> is missing. The priority rank of a severity;
  a higher rank is more severe.
\<close>

fun rank :: "severity \<Rightarrow> nat" where
  "rank Debug = 0"
| "rank Log = 1"
| "rank Info = 2"
| "rank Warn = 3"
| "rank Error = 4"

text \<open>
  Modelled from the spec: the module \<open>./log-level-filter\<close> is missing. An event is allowed iff
  the rank of its severity is at least the rank of the threshold.
\<close>

definition logLevelFilter_spec :: "severity \<Rightarrow> severity \<Rightarrow> bool" where
  "logLevelFilter_spec threshold sev \<longleftrightarrow> rank threshold \<le> rank sev"

subsection \<open>Serializer\<close>

text \<open>
  Modelled from the spec: the module \<open>./serializer\<close> is missing. The JSON-safe form of a value:
  a tree, without references.
\<close>

datatype json = JsonNull | JsonBool bool | JsonNum int | JsonStr string
  | JsonObj "(string \<times> json) list"

text \<open>
  Modelled from the spec: the module \<open>./serializer\<close> is missing. Circular references are broken:
  a reference to an object that is being serialized (one on the path from the root) is
  replaced by the marker. The recursion descends one object per unit of depth and has no
  result (\<open>None\<close>) when the depth is used up; \<open>undefined\<close> degrades to \<open>null\<close>.
\<close>

fun decycle :: "json \<Rightarrow> nat \<Rightarrow> heap \<Rightarrow> addr list \<Rightarrow> jsval \<Rightarrow> json option" where
  "decycle mark n h path JUndefined = Some JsonNull"
| "decycle mark n h path JNull = Some JsonNull"
| "decycle mark n h path (JBool b) = Some (JsonBool b)"
| "decycle mark n h path (JNum i) = Some (JsonNum i)"
| "decycle mark n h path (JStr s) = Some (JsonStr s)"
| "decycle mark 0 h path (JRef a) = None"
| "decycle mark (Suc n) h path (JRef a) =
     (if a \<in> set path then Some mark
      else map_option JsonObj
             (those (map (\<lambda>(k, x). map_option (Pair k) (decycle mark n h (a # path) x))
                       (deref h a))))"

text \<open>
  Modelled from the spec: the module \<open>./serializer\<close> is missing. What the spec leaves open is a
  parameter: the byte encoding of a JSON-safe value, the two markers, and the depth
  available to the traversal.
\<close>

record serializer_spec =
  encode :: "json \<Rightarrow> string"
  circular_marker :: json
  truncation_marker :: string
  depth :: nat

text \<open>
  Modelled from the spec: the module \<open>./serializer\<close> is missing. The event record; context and
  extra fields are held in their serialized form, a byte string.
\<close>

record event =
  ev_timestamp :: string
  ev_severity :: severity
  ev_message :: jsval
  ev_context :: string
  ev_extraFields :: string

text \<open>
  Modelled from the spec: the module \<open>./serializer\<close> is missing. At the debug severity a
  serialized payload longer than the size limit is cut to that many bytes and the
  truncation marker is appended.
\<close>

definition bound_payload :: "serializer_spec \<Rightarrow> nat \<Rightarrow> severity \<Rightarrow> string \<Rightarrow> string" where
  "bound_payload sp sizeLimit sev bytes =
     (if sev = Debug \<and> sizeLimit < length bytes
      then take sizeLimit bytes @ truncation_marker sp
      else bytes)"

text \<open>
  Modelled from the spec: the module \<open>./serializer\<close> is missing. \<open>serialize\<close> merges context,
  message, extra fields, the generated timestamp and the severity into one record; message
  and timestamp are never truncated.
\<close>

definition serialize_spec ::
  "serializer_spec \<Rightarrow> heap \<Rightarrow> string \<Rightarrow> jsval \<Rightarrow> nat \<Rightarrow> jsval \<Rightarrow> jsval \<Rightarrow> severity \<Rightarrow> event option"
where
  "serialize_spec sp h now ctx sizeLimit message extraFields sev =
     (case decycle (circular_marker sp) (depth sp) h [] ctx of
        None \<Rightarrow> None
      | Some c \<Rightarrow>
         (case decycle (circular_marker sp) (depth sp) h [] extraFields of
            None \<Rightarrow> None
          | Some e \<Rightarrow>
              Some \<lparr> ev_timestamp = now,
                     ev_severity = sev,
                     ev_message = message,
                     ev_context = bound_payload sp sizeLimit sev (encode sp c),
                     ev_extraFields = bound_payload sp sizeLimit sev (encode sp e) \<rparr>))"

section \<open>Sample values\<close>

text \<open>
  A level table, an environment with no variable set, sample modules, and the default
  logger built in the empty world; concrete inputs for the theorems below.
\<close>

definition demo_levels :: levels where
  "demo_levels = \<lparr> level_debug = JStr ''debug'', level_error = JStr ''error'',
                    level_warn = JStr ''warn'', level_log = JStr ''log'' \<rparr>"

definition demo_env :: env where
  "demo_env = \<lparr> LOG_LEVEL = None, LOG_LIMIT = None, LOG_NAMESPACES = None,
                 APP_NAME = None, LOGS_PRETTY_PRINT = None \<rparr>"

definition demo_modules :: modules where
  "demo_modules =
     \<lparr> loggerLevels = demo_levels,
       load_env = demo_env,
       logLevelFilter = (\<lambda>w threshold t. JBool (threshold = t \<or> threshold = JStr ''debug'')),
       isEnabled = (\<lambda>w ns patterns. JBool (patterns = JUndefined \<or> patterns = ns)),
       serialize = (\<lambda>w s message extra t. [(''message'', message), (''level'', t)]),
       eventFormatter = (\<lambda>w event f. event),
       stringify = (\<lambda>w event. to_str (js_get event ''level'') @ '': '' @ to_str (js_get event ''message'')),
       prettyjson_render = (\<lambda>w event options. []) \<rparr>"

definition demo_world :: world where
  "demo_world = \<lparr> heap = [], console = [], env = demo_env, active = None \<rparr>"

definition demo_logger :: logger where
  "demo_logger = fst (new_Logger demo_modules JUndefined [] demo_world)"

definition demo_world1 :: world where
  "demo_world1 = snd (new_Logger demo_modules JUndefined [] demo_world)"

definition demo_serializer_spec :: serializer_spec where
  "demo_serializer_spec =
     \<lparr> encode = (\<lambda>j. case j of JsonStr s \<Rightarrow> s | _ \<Rightarrow> ''{}''),
       circular_marker = JsonStr ''[Circular]'',
       truncation_marker = ''...'',
       depth = 3 \<rparr>"

section \<open>Emission when a value or a module raises\<close>

text \<open>
  What a call can raise: the \<open>TypeError\<close> of the language's own string conversion, or
  whatever a module raises.
\<close>

datatype js_error = TypeError | Raised string

















section \<open>What an emission reads of the store\<close>

text \<open>
  Two worlds that differ only in one object and in the objects allocated since.
\<close>

definition differs_only_at :: "addr \<Rightarrow> world \<Rightarrow> world \<Rightarrow> bool" where
  "differs_only_at cd w w' \<longleftrightarrow>
     console w' = console w \<and> env w' = env w \<and> active w' = active w
     \<and> length (heap w) \<le> length (heap w')
     \<and> (\<forall>a. a < length (heap w) \<and> a \<noteq> cd \<longrightarrow> heap w' ! a = heap w ! a)"

text \<open>
  The modules called for an emission read neither the logger's own \<open>contextData\<close> object nor
  an object allocated later: in every world that differs only there they answer the same.
  The logger hands the serializer an object of its own and passes \<open>serialize\<close> the message, the
  extra fields and the severity, nothing of \<open>contextData\<close>.
\<close>

definition emission_reads_own ::
  "modules \<Rightarrow> logger \<Rightarrow> jsval \<Rightarrow> jsval \<Rightarrow> jsval \<Rightarrow> world \<Rightarrow> bool" where
  "emission_reads_own md this message extra outputType w \<longleftrightarrow>
     (\<forall>w'. differs_only_at (contextData this) w w' \<longrightarrow>
        logLevelFilter md w' (logLevel this) outputType
          = logLevelFilter md w (logLevel this) outputType
        \<and> isEnabled md w' (namespace this) (logPatterns this)
          = isEnabled md w (namespace this) (logPatterns this)
        \<and> serialize md w' (serializer this) message extra outputType
          = serialize md w (serializer this) message extra outputType
        \<and> eventFormatter md w'
            (serialize md w (serializer this) message extra outputType) (logFormat this)
          = eventFormatter md w
            (serialize md w (serializer this) message extra outputType) (logFormat this)
        \<and> apply_format md (format this) w'
            (eventFormatter md w
               (serialize md w (serializer this) message extra outputType) (logFormat this))
          = apply_format md (format this) w
            (eventFormatter md w
               (serialize md w (serializer this) message extra outputType) (logFormat this)))"

section \<open>Further sample values\<close>

text \<open>
  Sample modules whose serializer reads the context out of its own object, a logger built
  on a context object, and a logger with the pretty-print format.
\<close>

definition reading_modules :: modules where
  "reading_modules =
     \<lparr> loggerLevels = demo_levels,
       load_env = demo_env,
       logLevelFilter = (\<lambda>w threshold t. JBool (threshold = t \<or> threshold = JStr ''debug'')),
       isEnabled = (\<lambda>w ns patterns. JBool (patterns = JUndefined \<or> patterns = ns)),
       serialize = (\<lambda>w s message extra t.
          (''message'', message)
            # own_props (heap w) (js_get (own_props (heap w) (s_contextData s)) ''context'')),
       eventFormatter = (\<lambda>w event f. event),
       stringify = (\<lambda>w event. concat (map (\<lambda>(k, v). k @ ''='' @ to_str v @ '' '') event)),
       prettyjson_render = (\<lambda>w event options. []) \<rparr>"

definition user_world :: world where
  "user_world =
     \<lparr> heap = [[(''user'', JStr ''u'')],
               [(''context'', JRef 0), (''logLevel'', JStr ''debug'')]],
       console = [], env = demo_env, active = None \<rparr>"

definition user_logger :: logger where
  "user_logger = fst (new_Logger reading_modules (JRef 1) [] user_world)"

definition user_world1 :: world where
  "user_world1 = snd (new_Logger reading_modules (JRef 1) [] user_world)"





section \<open>Store and construction lemmas\<close>

lemma deref_append:
  "deref (h @ xs) a = (if a < length h then deref h a else deref xs (a - length h))"
  by (auto simp add: deref_def nth_append)

lemma deref_Cons: "deref (x # xs) a = (if a = 0 then x else deref xs (a - 1))"
  by (cases a) (auto simp add: deref_def)

lemma deref_Nil: "deref [] a = []"
  by (simp add: deref_def)

lemma deref_list_update:
  "deref (h[a := ob]) b = (if b = a \<and> a < length h then ob else deref h b)"
  by (auto simp add: deref_def)

lemma js_get_update: "js_get (AList.update k v ob) k' = (if k' = k then v else js_get ob k')"
  by (simp add: js_get_def update_conv')

lemma js_get_Nil: "js_get [] k = JUndefined"
  by (simp add: js_get_def)

lemma js_get_Cons: "js_get ((k, v) # ob) k' = (if k' = k then v else js_get ob k')"
  by (auto simp add: js_get_def)

lemma object_assign_Nil: "object_assign t [] = t"
  by (simp add: object_assign_def)

lemma object_assign_Cons: "object_assign t ((k, v) # s) = object_assign (AList.update k v t) s"
  by (simp add: object_assign_def)

lemma js_get_object_assign:
  "js_get (object_assign t s) k = (case map_of (rev s) k of None \<Rightarrow> js_get t k | Some v \<Rightarrow> v)"
proof (induction s arbitrary: t)
  case Nil
  show ?case by (simp add: object_assign_Nil)
next
  case (Cons p s)
  obtain k' v' where p: "p = (k', v')" by (cases p)
  show ?case
    by (simp add: p object_assign_Cons Cons.IH js_get_update map_add_def split: option.splits)
qed

lemmas js_simps = js_get_object_assign js_get_Cons js_get_Nil

lemma new_Logger_eq:
  "new_Logger md options extraParameters w =
     (let a = normalizeArguments md (heap w) options extraParameters;
          cell = [(''context'', js_get a ''context''), (''name'', env_var (APP_NAME (env w)))]
      in (\<lparr> contextData = length (heap w),
            format = (if truthy (env_var (LOGS_PRETTY_PRINT (env w))) then PrettyPrint else Stringify),
            log = Method_info,
            logFormat = js_get a ''logFormat'',
            logLevel = js_get a ''logLevel'',
            logLimit = js_get a ''logLimit'',
            logPatterns = js_get a ''logPatterns'',
            namespace = js_get a ''namespace'',
            serializer = \<lparr> s_contextData = JRef (length (heap w) + 1),
                           s_namespace = js_get a ''namespace'',
                           s_logLimit = js_get a ''logLimit'' \<rparr> \<rparr>,
          w\<lparr>heap := heap w @ [cell, cell]\<rparr>))"
  by (simp add: new_Logger_def alloc_def Let_def)

lemma new_Logger_ok:
  "logger_ok (fst (new_Logger md options extraParameters w))
     (snd (new_Logger md options extraParameters w))"
  by (simp add: new_Logger_eq logger_ok_def Let_def)

lemma child_attrs:
  "normalizeArguments md (h @ [[(''context'', c), (''logPatterns'', p), (''namespace'', n)]])
      (JRef (length h)) [] = 
   object_assign (object_assign [] (DEFAULT_LOGGER_ATTRIBUTES md)) [(''context'', c), (''logPatterns'', p), (''namespace'', n)]"
  by (simp add: normalizeArguments_def own_props_def deref_def)

lemma createChildLogger_eq:
  "createChildLogger md this s w =
     (let h = heap w;
          c = js_get (deref h (contextData this)) ''context'';
          n = JStr (child_namespace (namespace this) s);
          lim = js_or (env_var (LOG_LIMIT (load_env md))) (JNum 7000);
          cell = [(''context'', c), (''name'', env_var (APP_NAME (env w)))]
      in (\<lparr> contextData = length h + 1,
            format = (if truthy (env_var (LOGS_PRETTY_PRINT (env w))) then PrettyPrint else Stringify),
            log = Method_info,
            logFormat = JUndefined,
            logLevel = js_or (env_var (LOG_LEVEL (load_env md))) (level_error (loggerLevels md)),
            logLimit = lim,
            logPatterns = logPatterns this,
            namespace = n,
            serializer = \<lparr> s_contextData = JRef (length h + 2), s_namespace = n, s_logLimit = lim \<rparr> \<rparr>,
          w\<lparr>heap := h @ [[(''context'', c), (''logPatterns'', logPatterns this), (''namespace'', n)], cell, cell]\<rparr>))"
  by (simp add: createChildLogger_def new_Logger_def alloc_def child_attrs js_simps
        DEFAULT_LOGGER_ATTRIBUTES_def child_namespace_def Let_def)

lemma setSessionId_eq:
  "setSessionId this sessionId w =
     w\<lparr>heap := (heap w @ [object_assign
                     (object_assign [] (own_props (heap w) (js_get (deref (heap w) (contextData this)) ''context'')))
                     [(''sessionId'', sessionId)]])
                [contextData this := AList.update ''context'' (JRef (length (heap w)))
                     (deref (heap w @ [object_assign
                     (object_assign [] (own_props (heap w) (js_get (deref (heap w) (contextData this)) ''context'')))
                     [(''sessionId'', sessionId)]]) (contextData this))]\<rparr>"
  by (simp add: setSessionId_def store_prop_def alloc_def Let_def)

lemma default_arguments_cases:
  "default_arguments e w = (if e = JUndefined then (JRef (length (heap w)), w\<lparr>heap := heap w @ [[]]\<rparr>) else (e, w))"
  by (simp add: default_arguments_def alloc_def)

lemma demo_logger_eq:
  "demo_logger =
     \<lparr> contextData = 0, format = Stringify, log = Method_info, logFormat = JUndefined,
       logLevel = JStr ''error'', logLimit = JNum 7000, logPatterns = JUndefined,
       namespace = JStr [],
       serializer = \<lparr> s_contextData = JRef 1, s_namespace = JStr [], s_logLimit = JNum 7000 \<rparr> \<rparr>"
  by (simp add: demo_logger_def new_Logger_eq normalizeArguments_def DEFAULT_LOGGER_ATTRIBUTES_def
        demo_modules_def demo_world_def demo_env_def demo_levels_def js_or_def env_var_def
        js_simps Let_def)


section \<open>Emission\<close>

lemma suppress_iff: "shouldSuppressOutput md this t w \<longleftrightarrow> \<not> both_allow md this t w"
  by (auto simp: shouldSuppressOutput_def both_allow_def)

lemma output_emit_at:
  "output md this message extra sev w = emit_at md this message extra (effective_level md sev) w"
  by (simp add: output_def emit_at_def suppress_iff effective_level_def event_line_def Let_def)




lemma info_emit_at:
  "info md this message extra w =
     emit_at md this message (fst (default_arguments extra w)) (level_log (loggerLevels md))
       (snd (default_arguments extra w))"
  by (simp add: info_def output_emit_at effective_level_def split: prod.splits)






section \<open>Namespace matcher\<close>

lemma prefix_take_eq: "prefix p ns \<longleftrightarrow> take (length p) ns = p"
proof
  assume "prefix p ns"
  then obtain zs where "ns = p @ zs" by (auto simp add: prefix_def)
  then show "take (length p) ns = p" by simp
next
  assume "take (length p) ns = p"
  then have "ns = p @ drop (length p) ns"
    by (metis append_take_drop_id)
  then show "prefix p ns" by (metis prefixI)
qed

lemma matches_compile_term: "matches (compile_term t) ns = term_matches t ns"
  by (simp add: compile_term_def term_matches_def prefix_take_eq)

lemma compile_terms_fst:
  "fst (compile_terms ts) = map compile_term (filter (\<lambda>t. hd t \<noteq> CHR ''-'') (filter (\<lambda>t. t \<noteq> []) ts))"
  by (induction ts) (auto simp add: Let_def split: prod.splits)

lemma compile_terms_snd:
  "snd (compile_terms ts) = map compile_term (map tl (filter (\<lambda>t. hd t = CHR ''-'') (filter (\<lambda>t. t \<noteq> []) ts)))"
  by (induction ts) (auto simp add: Let_def split: prod.splits)

lemma compile_patterns_eq:
  "compile_patterns e = (map compile_term (inclusion_terms e), map compile_term (exclusion_terms e))"
  by (simp add: compile_patterns_def inclusion_terms_def exclusion_terms_def pattern_terms_def
        prod_eq_iff compile_terms_fst compile_terms_snd)

text \<open>
  Claim C2. A namespace is enabled iff (no inclusion term exists or the namespace matches
  at least one inclusion term) and the namespace matches no exclusion term; an empty or
  absent pattern expression enables every namespace. Under \<open>api,-api:child\<close>, \<open>api\<close> is enabled,
  \<open>api:child\<close> and \<open>other\<close> are disabled.
\<close>

theorem namespace_enabled_iff:
  "(isEnabled_spec ns (Some e) \<longleftrightarrow>
      (inclusion_terms e = [] \<or> (\<exists>t \<in> set (inclusion_terms e). term_matches t ns))
      \<and> (\<forall>t \<in> set (exclusion_terms e). \<not> term_matches t ns))
   \<and> isEnabled_spec ns None
   \<and> isEnabled_spec ns (Some [])
   \<and> isEnabled_spec ''api'' (Some ''api,-api:child'')
   \<and> \<not> isEnabled_spec ''api:child'' (Some ''api,-api:child'')
   \<and> \<not> isEnabled_spec ''other'' (Some ''api,-api:child'')"
proof -
  have general: "isEnabled_spec ns (Some e) \<longleftrightarrow>
      (inclusion_terms e = [] \<or> (\<exists>t \<in> set (inclusion_terms e). term_matches t ns))
      \<and> (\<forall>t \<in> set (exclusion_terms e). \<not> term_matches t ns)"
    by (simp add: isEnabled_spec_def compile_patterns_eq list_ex_iff matches_compile_term)
  have absent: "isEnabled_spec ns None"
    by (simp add: isEnabled_spec_def)
  have empty: "isEnabled_spec ns (Some [])"
    by (simp add: isEnabled_spec_def compile_patterns_def)
  have ex1: "isEnabled_spec ''api'' (Some ''api,-api:child'')"
    by (simp add: isEnabled_spec_def compile_patterns_def compile_term_def)
  have ex2: "\<not> isEnabled_spec ''api:child'' (Some ''api,-api:child'')"
    by (simp add: isEnabled_spec_def compile_patterns_def compile_term_def)
  have ex3: "\<not> isEnabled_spec ''other'' (Some ''api,-api:child'')"
    by (simp add: isEnabled_spec_def compile_patterns_def compile_term_def)
  from general absent empty ex1 ex2 ex3 show ?thesis by blast
qed

text \<open>
  Claim C2 at an expression with a wildcard inclusion and an exclusion.
\<close>

theorem namespace_enabled_iff_witness:
  "inclusion_terms ''api*,-api:secret'' = [''api*'']
   \<and> exclusion_terms ''api*,-api:secret'' = [''api:secret'']
   \<and> term_matches ''api*'' ''api:users''
   \<and> isEnabled_spec ''api:users'' (Some ''api*,-api:secret'')
   \<and> \<not> isEnabled_spec ''api:secret'' (Some ''api*,-api:secret'')"
  using namespace_enabled_iff [where ns = "''api:users''" and e = "''api*,-api:secret''"]
        namespace_enabled_iff [where ns = "''api:secret''" and e = "''api*,-api:secret''"]
  by (simp add: inclusion_terms_def exclusion_terms_def pattern_terms_def term_matches_def)

section \<open>Level filter\<close>

text \<open>
  Claim C3 as stated fails: under the threshold \<open>Error\<close> an event at \<open>Debug\<close> is suppressed,
  \<open>Log\<close> ranks higher than \<open>Debug\<close>, and an event at \<open>Log\<close> is suppressed by the same threshold.
\<close>

theorem level_filter_claim_fails:
  "rank Debug < rank Log \<and> \<not> logLevelFilter_spec Error Debug \<and> rank Log \<le> rank Log
   \<and> \<not> logLevelFilter_spec Error Log"
  by (simp add: logLevelFilter_spec_def)

text \<open>
  Claim C3, amended. The filter allows iff the rank of the severity is at least the rank of
  the threshold. Allowance is monotone in the rank: what is allowed at a severity is allowed
  at every higher one. When \<open>s1\<close> ranks below \<open>s2\<close>, the threshold \<open>s2\<close> suppresses \<open>s1\<close> and never
  suppresses \<open>s2\<close> or a higher severity.
\<close>

theorem level_filter_monotone:
  "(logLevelFilter_spec t s \<longleftrightarrow> rank t \<le> rank s)
   \<and> (rank s1 < rank s2 \<longrightarrow> logLevelFilter_spec t s1 \<longrightarrow> logLevelFilter_spec t s2)
   \<and> (rank s1 < rank s2 \<longrightarrow>
        \<not> logLevelFilter_spec s2 s1
        \<and> (\<forall>s3. rank s2 \<le> rank s3 \<longrightarrow> logLevelFilter_spec s2 s3))"
  by (auto simp add: logLevelFilter_spec_def)

text \<open>
  Claim C3, amended, at the thresholds \<open>Warn\<close> and \<open>Log\<close>.
\<close>

theorem level_filter_monotone_witness:
  "logLevelFilter_spec Warn Error \<and> \<not> logLevelFilter_spec Warn Log
   \<and> rank Log < rank Warn \<and> logLevelFilter_spec Log Log \<and> logLevelFilter_spec Log Warn"
  using level_filter_monotone [of Warn Error Log Warn]
        level_filter_monotone [of Log Log Log Warn]
  by simp

section \<open>Serializer\<close>

lemma those_map_Some:
  "(\<And>x. x \<in> set xs \<Longrightarrow> f x \<noteq> None) \<Longrightarrow> those (map f xs) \<noteq> None"
  by (induction xs) (auto split: option.splits)



lemma unvisited_less:
  assumes "a < length h" "a \<notin> set path"
  shows "card ({..<length h} - set (a # path)) < card ({..<length h} - set path)"
proof -
  have "{..<length h} - set (a # path) \<subset> {..<length h} - set path"
    using assms by auto
  then show ?thesis
    by (simp add: psubset_card_mono)
qed

lemma decycle_returns:
  "card ({..<length h} - set path) < n \<Longrightarrow> decycle mark n h path v \<noteq> None"
proof (induction n arbitrary: path v)
  case 0
  then show ?case by simp
next
  case (Suc n)
  show ?case
  proof (cases v)
    case (JRef a)
    show ?thesis
    proof (cases "a \<in> set path")
      case True
      then show ?thesis by (simp add: JRef)
    next
      case False
      have "those (map (\<lambda>(k, x). map_option (Pair k) (decycle mark n h (a # path) x))
                       (deref h a)) \<noteq> None"
      proof (cases "a < length h")
        case True
        have "card ({..<length h} - set (a # path)) < n"
          using unvisited_less [OF True False] Suc.prems by linarith
        then have "\<And>x. decycle mark n h (a # path) x \<noteq> None"
          by (rule Suc.IH)
        then show ?thesis
          by (intro those_map_Some) (auto split: prod.splits)
      next
        case False
        then show ?thesis by (simp add: deref_def)
      qed
      then show ?thesis
        using False by (simp add: JRef)
    qed
  qed simp_all
qed

lemma decycle_total: "length h < n \<Longrightarrow> \<exists>j. decycle mark n h [] v = Some j"
proof -
  assume "length h < n"
  then have "card ({..<length h} - set []) < n" by simp
  then have "decycle mark n h [] v \<noteq> None" by (rule decycle_returns)
  then show ?thesis by blast
qed


lemma serialize_spec_returns:
  assumes "length h < depth sp"
  shows "\<exists>c e. decycle (circular_marker sp) (depth sp) h [] ctx = Some c
            \<and> decycle (circular_marker sp) (depth sp) h [] extraFields = Some e
            \<and> serialize_spec sp h now ctx sizeLimit message extraFields sev =
                Some \<lparr> ev_timestamp = now, ev_severity = sev, ev_message = message,
                       ev_context = bound_payload sp sizeLimit sev (encode sp c),
                       ev_extraFields = bound_payload sp sizeLimit sev (encode sp e) \<rparr>"
proof -
  obtain c where c: "decycle (circular_marker sp) (depth sp) h [] ctx = Some c"
    using decycle_total [OF assms] by blast
  obtain e where e: "decycle (circular_marker sp) (depth sp) h [] extraFields = Some e"
    using decycle_total [OF assms] by blast
  show ?thesis
    using c e by (simp add: serialize_spec_def)
qed

lemma bound_payload_length:
  "length (bound_payload sp sizeLimit Debug bytes) \<le> sizeLimit + length (truncation_marker sp)"
  by (simp add: bound_payload_def)

text \<open>
  Claim C4. With depth for every object of the store, serialization yields an event. At the
  debug severity a serialized context or extra-fields payload longer than the size limit
  is cut to that many bytes, counted on the encoded bytes, with the truncation marker
  appended, so its length is at most the limit plus the marker's length. Message and
  timestamp are those given. At any other severity the payloads are not truncated.
\<close>

theorem debug_payload_bounded:
  assumes "length h < depth sp"
  shows "\<exists>c e ev.
           decycle (circular_marker sp) (depth sp) h [] ctx = Some c
         \<and> decycle (circular_marker sp) (depth sp) h [] extraFields = Some e
         \<and> serialize_spec sp h now ctx sizeLimit message extraFields sev = Some ev
         \<and> ev_message ev = message
         \<and> ev_timestamp ev = now
         \<and> (sev = Debug \<and> sizeLimit < length (encode sp c) \<longrightarrow>
               ev_context ev = take sizeLimit (encode sp c) @ truncation_marker sp)
         \<and> (sev = Debug \<and> sizeLimit < length (encode sp e) \<longrightarrow>
               ev_extraFields ev = take sizeLimit (encode sp e) @ truncation_marker sp)
         \<and> (sev = Debug \<longrightarrow>
               length (ev_context ev) \<le> sizeLimit + length (truncation_marker sp)
             \<and> length (ev_extraFields ev) \<le> sizeLimit + length (truncation_marker sp))
         \<and> (sev \<noteq> Debug \<longrightarrow>
               ev_context ev = encode sp c \<and> ev_extraFields ev = encode sp e)"
proof -
  obtain c e where c: "decycle (circular_marker sp) (depth sp) h [] ctx = Some c"
    and e: "decycle (circular_marker sp) (depth sp) h [] extraFields = Some e"
    and s: "serialize_spec sp h now ctx sizeLimit message extraFields sev =
                Some \<lparr> ev_timestamp = now, ev_severity = sev, ev_message = message,
                       ev_context = bound_payload sp sizeLimit sev (encode sp c),
                       ev_extraFields = bound_payload sp sizeLimit sev (encode sp e) \<rparr>"
    using serialize_spec_returns [OF assms] by blast
  show ?thesis
    by (rule exI [of _ c], rule exI [of _ e],
        rule exI [of _ "\<lparr> ev_timestamp = now, ev_severity = sev, ev_message = message,
                       ev_context = bound_payload sp sizeLimit sev (encode sp c),
                       ev_extraFields = bound_payload sp sizeLimit sev (encode sp e) \<rparr>"],
        simp add: c e s bound_payload_def)
qed

text \<open>
  Claim C4 at a ten-byte context and a limit of four bytes.
\<close>

theorem debug_payload_bounded_witness:
  "length ([] :: heap) < depth demo_serializer_spec
   \<and> serialize_spec demo_serializer_spec [] ''t0'' (JStr ''0123456789'') 4 (JStr ''msg'') JNull Debug
       = Some \<lparr> ev_timestamp = ''t0'', ev_severity = Debug, ev_message = JStr ''msg'',
                ev_context = ''0123...'', ev_extraFields = ''{}'' \<rparr>"
  using debug_payload_bounded [where h = "[]" and sp = demo_serializer_spec
          and ctx = "JStr ''0123456789''" and extraFields = JNull and now = "''t0''"
          and sizeLimit = 4 and message = "JStr ''msg''" and sev = Debug]
  by (simp add: demo_serializer_spec_def serialize_spec_def bound_payload_def)

section \<open>Emission that raises\<close>


















section \<open>The current logger\<close>

lemma current_no_active_domain:
  "active w = None \<Longrightarrow> current md w = (Some (fst (new_Logger md JUndefined [] w)), snd (new_Logger md JUndefined [] w))"
  by (simp add: current_def split: prod.splits)

lemma current_bound: "active w = Some \<lparr>domain_logger = Some l\<rparr> \<Longrightarrow> current md w = (Some l, w)"
  by (simp add: current_def)

text \<open>
  Claim C6 fails on the code: when a domain is active and no logger is bound to it,
  \<open>Logger.current()\<close> returns \<open>undefined\<close>.
\<close>

theorem current_without_bound_logger:
  "current md (w\<lparr>active := Some \<lparr>domain_logger = None\<rparr>\<rparr>)
     = (None, w\<lparr>active := Some \<lparr>domain_logger = None\<rparr>\<rparr>)"
  by (simp add: current_def)

section \<open>Child loggers\<close>

text \<open>
  Claim C7. \<open>createChildLogger(s)\<close> returns a logger whose namespace is the parent's, a colon
  and \<open>s\<close> when the parent's namespace is non-empty, and \<open>s\<close> otherwise; it has the parent's
  context and pattern expression, and the default threshold. A second call with the same
  suffix yields a logger with the same namespace and pattern expression, hence the same
  answers of the matcher, and a different object.
\<close>

theorem child_logger_inheritance:
  "(let (c, w1) = createChildLogger md this (JStr s) w;
        (c2, w2) = createChildLogger md this (JStr s) w1
    in namespace c = JStr (if truthy (namespace this) then to_str (namespace this) @ '':'' @ s else s)
       \<and> js_get (deref (heap w1) (contextData c)) ''context''
             = js_get (deref (heap w) (contextData this)) ''context''
       \<and> logPatterns c = logPatterns this
       \<and> logLevel c = js_get (DEFAULT_LOGGER_ATTRIBUTES md) ''logLevel''
       \<and> namespace c2 = namespace c
       \<and> logPatterns c2 = logPatterns c
       \<and> (\<forall>w'. isEnabled md w' (namespace c2) (logPatterns c2)
                   = isEnabled md w' (namespace c) (logPatterns c))
       \<and> contextData c2 \<noteq> contextData c)
   \<and> namespace (fst (createChildLogger md (this\<lparr>namespace := JStr p\<rparr>) (JStr s) w))
        = JStr (if p = [] then s else p @ '':'' @ s)"
  by (simp add: createChildLogger_eq Let_def child_namespace_def deref_append deref_Cons js_simps
        DEFAULT_LOGGER_ATTRIBUTES_def)

text \<open>
  Claim C7 at the parent namespaces \<open>docs\<close> and the empty one.
\<close>

theorem child_logger_inheritance_witness:
  "namespace (fst (createChildLogger demo_modules (demo_logger\<lparr>namespace := JStr ''docs''\<rparr>)
                     (JStr ''child'') demo_world1)) = JStr ''docs:child''
   \<and> namespace (fst (createChildLogger demo_modules demo_logger (JStr ''child'') demo_world1))
        = JStr ''child''"
  using child_logger_inheritance [where md = demo_modules and this = demo_logger
          and s = "''child''" and w = demo_world1 and p = "''docs''"]
        child_logger_inheritance [where md = demo_modules and this = demo_logger
          and s = "''child''" and w = demo_world1 and p = "[]"]
  by (simp add: demo_logger_eq split: prod.splits)

section \<open>The log alias\<close>

text \<open>
  Claim C8. The \<open>log\<close> field of a constructed logger refers to \<open>info\<close>; \<open>info\<close> calls \<open>output\<close>
  without a severity, which is a call at the level \<open>log\<close> of the level table: that level is
  asked of the level filter and handed to the serializer.
\<close>

theorem info_is_log:
  "log (fst (new_Logger md options extraParameters w0)) = Method_info
   \<and> invoke (log (fst (new_Logger md options extraParameters w0))) md this message extra w
        = info md this message extra w
   \<and> info md this message extra w
        = output md this message (fst (default_arguments extra w))
            (level_log (loggerLevels md)) (snd (default_arguments extra w))
   \<and> info md this message extra w
        = emit_at md this message (fst (default_arguments extra w))
            (level_log (loggerLevels md)) (snd (default_arguments extra w))"
proof -
  have a: "log (fst (new_Logger md options extraParameters w0)) = Method_info"
    by (simp add: new_Logger_def Let_def split: prod.splits)
  have b: "invoke Method_info = info"
    by (simp add: invoke_def)
  have c: "info md this message extra w
        = output md this message (fst (default_arguments extra w))
            (level_log (loggerLevels md)) (snd (default_arguments extra w))"
    by (simp add: info_emit_at output_emit_at effective_level_def)
  show ?thesis
    using a b c info_emit_at by simp
qed

text \<open>
  Claim C8 at the default logger, where the call is suppressed.
\<close>

theorem info_is_log_witness:
  "log demo_logger = Method_info
   \<and> invoke (log demo_logger) demo_modules demo_logger (JStr ''hi'') JNull demo_world1
        = info demo_modules demo_logger (JStr ''hi'') JNull demo_world1
   \<and> info demo_modules demo_logger (JStr ''hi'') JNull demo_world1 = demo_world1"
proof -
  note t = info_is_log [where md = demo_modules and options = JUndefined
          and extraParameters = "[]" and ?w0.0 = demo_world and this = demo_logger
          and message = "JStr ''hi''" and extra = JNull and w = demo_world1,
          unfolded demo_logger_def [symmetric]]
  have suppressed:
    "emit_at demo_modules demo_logger (JStr ''hi'') JNull (level_log (loggerLevels demo_modules))
       demo_world1 = demo_world1"
    by (simp add: emit_at_def both_allow_def demo_logger_eq demo_modules_def demo_levels_def)
  show ?thesis
    using t suppressed
    by (simp add: default_arguments_cases invoke_def output_emit_at effective_level_def)
qed

section \<open>Session identifier\<close>

lemma map_of_rev_distinct: "distinct (map fst ps) \<Longrightarrow> map_of (rev ps) = map_of ps"
proof (induction ps)
  case Nil
  show ?case by simp
next
  case (Cons p ps)
  obtain k v where p: "p = (k, v)" by (cases p)
  have absent: "map_of ps k = None"
    using Cons.prems by (simp add: p map_of_eq_None_iff)
  have "map_of (rev ps) = map_of ps"
    using Cons by simp
  then show ?case
    using absent by (auto simp add: p map_add_def fun_eq_iff split: option.splits)
qed

lemma js_get_copy:
  assumes "distinct (map fst ps)"
  shows "js_get (object_assign [] ps) k = js_get ps k"
proof -
  have "js_get (object_assign [] ps) k
          = (case map_of (rev ps) k of None \<Rightarrow> js_get [] k | Some v \<Rightarrow> v)"
    by (rule js_get_object_assign)
  also have "\<dots> = (case map_of ps k of None \<Rightarrow> JUndefined | Some v \<Rightarrow> v)"
    by (simp add: map_of_rev_distinct [OF assms] js_get_Nil split: option.splits)
  finally show ?thesis
    by (simp add: js_get_def)
qed

lemma keys_update: "fst ` set (AList.update k v al) = insert k (fst ` set al)"
  by (induction al) auto

lemma keys_object_assign: "fst ` set (object_assign t s) = fst ` set t \<union> fst ` set s"
proof (induction s arbitrary: t)
  case Nil
  show ?case by (simp add: object_assign_Nil)
next
  case (Cons p s)
  obtain k v where p: "p = (k, v)" by (cases p)
  show ?case
    by (simp add: p object_assign_Cons Cons.IH keys_update)
qed

lemma merged_object:
  assumes "distinct (map fst ps)"
  shows "js_get (object_assign (object_assign [] ps) [(''sessionId'', sid)]) k
           = (if k = ''sessionId'' then sid else js_get ps k)"
    and "fst ` set (object_assign (object_assign [] ps) [(''sessionId'', sid)])
           = insert ''sessionId'' (fst ` set ps)"
  using js_get_copy [OF assms]
  by (simp_all add: object_assign_Cons object_assign_Nil js_get_update keys_update
        keys_object_assign)

lemma show_nat_nonempty: "show_nat n \<noteq> []"
  by (subst show_nat.simps) simp

lemma digit_distinct:
  "n < 10 \<Longrightarrow> m < 10 \<Longrightarrow> ''0123456789'' ! n = ''0123456789'' ! m \<Longrightarrow> n = m"
proof -
  assume n: "n < 10" and m: "m < 10" and e: "''0123456789'' ! n = ''0123456789'' ! m"
  have d: "distinct ''0123456789''" by simp
  have "n < length ''0123456789''" "m < length ''0123456789''"
    using n m by simp_all
  then show "n = m"
    using d e by (simp only: nth_eq_iff_index_eq)
qed

lemma digit_in: "n < 10 \<Longrightarrow> ''0123456789'' ! n \<in> set ''0123456789''"
  by (rule nth_mem) simp

lemma show_nat_digits: "set (show_nat n) \<subseteq> set ''0123456789''"
proof (induction n rule: show_nat.induct)
  case (1 n)
  show ?case
  proof (cases "n < 10")
    case True
    then show ?thesis
      using digit_in [of n] by (subst show_nat.simps) simp
  next
    case False
    have "n mod 10 < 10" by simp
    then have "''0123456789'' ! (n mod 10) \<in> set ''0123456789''"
      by (rule digit_in)
    then show ?thesis
      using False "1.IH" by (subst show_nat.simps) simp
  qed
qed

lemma show_nat_inj: "show_nat n = show_nat m \<Longrightarrow> n = m"
proof (induction n arbitrary: m rule: show_nat.induct)
  case (1 n)
  show ?case
  proof (cases "n < 10")
    case True
    have n: "show_nat n = [''0123456789'' ! n]"
      using True by (subst show_nat.simps) simp
    show ?thesis
    proof (cases "m < 10")
      case m: True
      have "show_nat m = [''0123456789'' ! m]"
        using m by (subst show_nat.simps) simp
      then show ?thesis
        using "1.prems" n True m digit_distinct by simp
    next
      case False
      have "show_nat m = show_nat (m div 10) @ [''0123456789'' ! (m mod 10)]"
        using False by (subst show_nat.simps) simp
      then have "length (show_nat m) \<noteq> 1"
        using show_nat_nonempty [of "m div 10"] by (cases "show_nat (m div 10)") simp_all
      moreover have "length (show_nat n) = 1"
        using n by simp
      ultimately show ?thesis
        using "1.prems" by simp
    qed
  next
    case False
    have n: "show_nat n = show_nat (n div 10) @ [''0123456789'' ! (n mod 10)]"
      using False by (subst show_nat.simps) simp
    show ?thesis
    proof (cases "m < 10")
      case True
      have "show_nat m = [''0123456789'' ! m]"
        using True by (subst show_nat.simps) simp
      then have "length (show_nat m) = 1"
        by simp
      moreover have "length (show_nat n) \<noteq> 1"
        using n show_nat_nonempty [of "n div 10"] by (cases "show_nat (n div 10)") simp_all
      ultimately show ?thesis
        using "1.prems" by simp
    next
      case m: False
      have m': "show_nat m = show_nat (m div 10) @ [''0123456789'' ! (m mod 10)]"
        using m by (subst show_nat.simps) simp
      from "1.prems" n m' have front: "show_nat (n div 10) = show_nat (m div 10)"
        and final: "''0123456789'' ! (n mod 10) = ''0123456789'' ! (m mod 10)"
        by simp_all
      have "n div 10 = m div 10"
        using "1.IH" [OF False front] .
      moreover have "n mod 10 = m mod 10"
        using final by (intro digit_distinct) simp_all
      ultimately show ?thesis
        by (metis div_mult_mod_eq)
    qed
  qed
qed

lemma enumerate_keys:
  "map fst (map (\<lambda>(i, c). (f i, g c)) (enumerate n s)) = map f [n..<n + length s]"
proof (induction s arbitrary: n)
  case Nil
  show ?case by simp
next
  case (Cons x xs)
  have "[n..<n + length (x # xs)] = n # [Suc n..<Suc n + length xs]"
    by (subst upt_rec) simp
  then show ?case
    using Cons.IH [of "Suc n"] by simp
qed

lemma enumerate_member:
  "i < length s \<Longrightarrow> (f (n + i), g (s ! i)) \<in> set (map (\<lambda>(i, c). (f i, g c)) (enumerate n s))"
  by (force simp add: in_set_enumerate_eq)

lemma string_props_keys:
  "map fst (own_props h (JStr s)) = map show_nat [0..<length s]"
  using enumerate_keys [of show_nat "\<lambda>c. JStr [c]" 0 s] by (simp add: own_props_def)

lemma string_props_distinct: "distinct (map fst (own_props h (JStr s)))"
  by (simp add: string_props_keys distinct_map inj_on_def show_nat_inj)

lemma string_props_get:
  assumes "i < length s"
  shows "js_get (own_props h (JStr s)) (show_nat i) = JStr [s ! i]"
proof -
  have "(show_nat i, JStr [s ! i]) \<in> set (own_props h (JStr s))"
    using enumerate_member [OF assms, of show_nat 0 "\<lambda>c. JStr [c]"] by (simp add: own_props_def)
  then have "map_of (own_props h (JStr s)) (show_nat i) = Some (JStr [s ! i])"
    using string_props_distinct by (simp add: map_of_is_SomeI)
  then show ?thesis
    by (simp add: js_get_def)
qed

lemma show_nat_not_sessionId: "show_nat i \<noteq> ''sessionId''"
proof
  assume "show_nat i = ''sessionId''"
  then have "CHR ''s'' \<in> set (show_nat i)" by simp
  then show False
    using show_nat_digits [of i] by auto
qed

lemma setSessionId_new_object:
  assumes "contextData this < length (heap w)"
  shows "deref (heap (setSessionId this sid w)) (length (heap w))
           = object_assign
               (object_assign []
                  (own_props (heap w) (js_get (deref (heap w) (contextData this)) ''context'')))
               [(''sessionId'', sid)]"
  using assms
  by (simp add: setSessionId_eq deref_list_update deref_append deref_Cons)

lemma setSessionId_differs:
  "contextData this < length (heap w) \<Longrightarrow>
     differs_only_at (contextData this) w (setSessionId this sid w)"
  by (simp add: differs_only_at_def setSessionId_eq nth_append)

lemma differs_only_at_deref:
  "differs_only_at cd w w' \<Longrightarrow> a < length (heap w) \<Longrightarrow> a \<noteq> cd
     \<Longrightarrow> deref (heap w') a = deref (heap w) a"
  by (simp add: differs_only_at_def deref_def)

lemma output_unaffected:
  assumes d: "differs_only_at (contextData this) w w'"
    and own: "emission_reads_own md this message extra (effective_level md sev) w"
  shows "output md this message extra sev w' = w'\<lparr>console := console (output md this message extra sev w)\<rparr>"
proof -
  note facts = own [unfolded emission_reads_own_def, rule_format, OF d]
  have allow: "both_allow md this (effective_level md sev) w'
                 = both_allow md this (effective_level md sev) w"
    using facts by (simp add: both_allow_def)
  have line: "event_line md this message extra (effective_level md sev) w'
                = event_line md this message extra (effective_level md sev) w"
    using facts by (simp add: event_line_def)
  have c: "console w' = console w"
    using d by (simp add: differs_only_at_def)
  show ?thesis
    by (simp add: output_emit_at emit_at_def allow line c)
qed

lemma user_logger_eq:
  "user_logger =
     \<lparr> contextData = 2, format = Stringify, log = Method_info, logFormat = JUndefined,
       logLevel = JStr ''debug'', logLimit = JNum 7000, logPatterns = JUndefined,
       namespace = JStr [],
       serializer = \<lparr> s_contextData = JRef 3, s_namespace = JStr [], s_logLimit = JNum 7000 \<rparr> \<rparr>"
  by (simp add: user_logger_def new_Logger_eq normalizeArguments_def DEFAULT_LOGGER_ATTRIBUTES_def
        reading_modules_def user_world_def demo_env_def demo_levels_def js_or_def env_var_def
        own_props_def deref_def js_simps Let_def)

lemma user_world1_eq:
  "user_world1 =
     \<lparr> heap = [[(''user'', JStr ''u'')],
               [(''context'', JRef 0), (''logLevel'', JStr ''debug'')],
               [(''context'', JRef 0), (''name'', JUndefined)],
               [(''context'', JRef 0), (''name'', JUndefined)]],
       console = [], env = demo_env, active = None \<rparr>"
  by (simp add: user_world1_def new_Logger_eq normalizeArguments_def DEFAULT_LOGGER_ATTRIBUTES_def
        reading_modules_def user_world_def demo_env_def demo_levels_def js_or_def env_var_def
        own_props_def deref_def js_simps Let_def)

lemma user_emission_reads_own:
  "emission_reads_own reading_modules user_logger (JStr ''m'') JNull (JStr ''error'') user_world1"
proof (unfold emission_reads_own_def, intro allI impI)
  fix w'
  assume "differs_only_at (contextData user_logger) user_world1 w'"
  then have d: "differs_only_at 2 user_world1 w'"
    by (simp add: user_logger_eq)
  have cells: "deref (heap w') 0 = [(''user'', JStr ''u'')]"
              "deref (heap w') 3 = [(''context'', JRef 0), (''name'', JUndefined)]"
    using differs_only_at_deref [OF d, of 0] differs_only_at_deref [OF d, of 3]
    by (simp_all add: user_world1_eq deref_Cons)
  have old: "deref (heap user_world1) 0 = [(''user'', JStr ''u'')]"
            "deref (heap user_world1) 3 = [(''context'', JRef 0), (''name'', JUndefined)]"
    by (simp_all add: user_world1_eq deref_Cons)
  have s: "serializer user_logger
             = \<lparr> s_contextData = JRef 3, s_namespace = JStr [], s_logLimit = JNum 7000 \<rparr>"
    by (simp add: user_logger_eq)
  have f: "format user_logger = Stringify"
    by (simp add: user_logger_eq)
  show "logLevelFilter reading_modules w' (logLevel user_logger) (JStr ''error'')
          = logLevelFilter reading_modules user_world1 (logLevel user_logger) (JStr ''error'')
        \<and> isEnabled reading_modules w' (namespace user_logger) (logPatterns user_logger)
          = isEnabled reading_modules user_world1 (namespace user_logger) (logPatterns user_logger)
        \<and> serialize reading_modules w' (serializer user_logger) (JStr ''m'') JNull (JStr ''error'')
          = serialize reading_modules user_world1 (serializer user_logger) (JStr ''m'') JNull
              (JStr ''error'')
        \<and> eventFormatter reading_modules w'
            (serialize reading_modules user_world1 (serializer user_logger) (JStr ''m'') JNull
               (JStr ''error'')) (logFormat user_logger)
          = eventFormatter reading_modules user_world1
            (serialize reading_modules user_world1 (serializer user_logger) (JStr ''m'') JNull
               (JStr ''error'')) (logFormat user_logger)
        \<and> apply_format reading_modules (format user_logger) w'
            (eventFormatter reading_modules user_world1
               (serialize reading_modules user_world1 (serializer user_logger) (JStr ''m'') JNull
                  (JStr ''error'')) (logFormat user_logger))
          = apply_format reading_modules (format user_logger) user_world1
            (eventFormatter reading_modules user_world1
               (serialize reading_modules user_world1 (serializer user_logger) (JStr ''m'') JNull
                  (JStr ''error'')) (logFormat user_logger))"
    by (simp add: s f reading_modules_def apply_format_def own_props_def cells old js_simps)
qed

text \<open>
  Claim C9. \<open>setSessionId(sid)\<close> makes \<open>contextData.context\<close> refer to a new object, the merge of
  the old context and \<open>sessionId = sid\<close>: it holds \<open>sid\<close> under \<open>sessionId\<close> and under every other
  name what the old context held (the properties of an object, the indexed characters of a
  string, nothing for another value). Nothing else changes: every other property of
  \<open>contextData\<close>, every other object of the store, the object the serializer holds, console,
  environment and active domain. An emission after \<open>setSessionId\<close> writes the line it would have
  written before, so the event carries the construction-time context and not the new
  \<open>sessionId\<close>, for modules that read what the logger hands them. After construction and
  \<open>setSessionId\<close> the serializer's object still holds the context given at construction.
\<close>

theorem setSessionId_effect:
  "(logger_ok this w \<longrightarrow>
     (let w' = setSessionId this sid w; m = length (heap w);
          old = js_get (deref (heap w) (contextData this)) ''context''
      in js_get (deref (heap w') (contextData this)) ''context'' = JRef m
         \<and> deref (heap w') m
              = object_assign (object_assign [] (own_props (heap w) old)) [(''sessionId'', sid)]
         \<and> js_get (deref (heap w') m) ''sessionId'' = sid
         \<and> (\<forall>c. old = JRef c \<and> distinct (map fst (deref (heap w) c)) \<longrightarrow>
               (\<forall>k. k \<noteq> ''sessionId'' \<longrightarrow>
                  js_get (deref (heap w') m) k = js_get (deref (heap w) c) k)
               \<and> fst ` set (deref (heap w') m)
                    = insert ''sessionId'' (fst ` set (deref (heap w) c)))
         \<and> ((\<forall>c. old \<noteq> JRef c) \<and> (\<forall>s. old \<noteq> JStr s) \<longrightarrow>
               deref (heap w') m = [(''sessionId'', sid)])
         \<and> (\<forall>s. old = JStr s \<longrightarrow>
               (\<forall>i. i < length s \<longrightarrow>
                  js_get (deref (heap w') m) (show_nat i) = JStr [s ! i])
               \<and> fst ` set (deref (heap w') m)
                    = insert ''sessionId'' (show_nat ` {..<length s}))
         \<and> (\<forall>k. k \<noteq> ''context'' \<longrightarrow>
               js_get (deref (heap w') (contextData this)) k
                 = js_get (deref (heap w) (contextData this)) k)
         \<and> (\<forall>a. a < length (heap w) \<and> a \<noteq> contextData this \<longrightarrow>
               deref (heap w') a = deref (heap w) a)
         \<and> (case s_contextData (serializer this) of
               JRef scd \<Rightarrow> deref (heap w') scd = deref (heap w) scd
             | _ \<Rightarrow> False)
         \<and> w' = w\<lparr>heap := heap w'\<rparr>
         \<and> logger_ok this w'
         \<and> (\<forall>mds message extra sev.
               emission_reads_own mds this message extra (effective_level mds sev) w \<longrightarrow>
               output mds this message extra sev w'
                 = w'\<lparr>console := console (output mds this message extra sev w)\<rparr>)))
   \<and> (let (l, w1) = new_Logger md options extraParameters w0;
           w2 = setSessionId l sid w1
       in s_contextData (serializer l) = JRef (length (heap w0) + 1)
          \<and> js_get (deref (heap w2) (length (heap w0) + 1)) ''context''
               = js_get (normalizeArguments md (heap w0) options extraParameters) ''context''
          \<and> js_get (deref (heap w2) (contextData l)) ''context'' = JRef (length (heap w1)))"
proof -
  have frame: "logger_ok this w \<Longrightarrow>
      js_get (deref (heap (setSessionId this sid w)) (contextData this)) ''context''
        = JRef (length (heap w))
      \<and> (\<forall>k. k \<noteq> ''context'' \<longrightarrow>
               js_get (deref (heap (setSessionId this sid w)) (contextData this)) k
                 = js_get (deref (heap w) (contextData this)) k)
      \<and> (\<forall>a. a < length (heap w) \<and> a \<noteq> contextData this \<longrightarrow>
               deref (heap (setSessionId this sid w)) a = deref (heap w) a)
      \<and> (case s_contextData (serializer this) of
               JRef scd \<Rightarrow> deref (heap (setSessionId this sid w)) scd = deref (heap w) scd
             | _ \<Rightarrow> False)
      \<and> setSessionId this sid w = w\<lparr>heap := heap (setSessionId this sid w)\<rparr>
      \<and> logger_ok this (setSessionId this sid w)"
    by (auto simp add: logger_ok_def setSessionId_eq Let_def deref_list_update deref_append
          deref_Cons js_get_update js_simps split: jsval.splits)
  have new: "logger_ok this w \<Longrightarrow>
      deref (heap (setSessionId this sid w)) (length (heap w))
           = object_assign
               (object_assign []
                  (own_props (heap w) (js_get (deref (heap w) (contextData this)) ''context'')))
               [(''sessionId'', sid)]"
    by (simp add: logger_ok_def setSessionId_new_object)
  have sid: "logger_ok this w \<Longrightarrow>
      js_get (deref (heap (setSessionId this sid w)) (length (heap w))) ''sessionId'' = sid"
    by (simp add: new object_assign_Cons object_assign_Nil js_get_update)
  have merge: "logger_ok this w \<Longrightarrow>
      js_get (deref (heap w) (contextData this)) ''context'' = JRef c \<Longrightarrow>
      distinct (map fst (deref (heap w) c)) \<Longrightarrow>
      (\<forall>k. k \<noteq> ''sessionId'' \<longrightarrow>
          js_get (deref (heap (setSessionId this sid w)) (length (heap w))) k
            = js_get (deref (heap w) c) k)
      \<and> fst ` set (deref (heap (setSessionId this sid w)) (length (heap w)))
            = insert ''sessionId'' (fst ` set (deref (heap w) c))" for c
    using merged_object [of "deref (heap w) c" sid]
    by (simp add: new own_props_def)
  have prim: "logger_ok this w \<Longrightarrow>
      (\<forall>c. js_get (deref (heap w) (contextData this)) ''context'' \<noteq> JRef c) \<Longrightarrow>
      (\<forall>s. js_get (deref (heap w) (contextData this)) ''context'' \<noteq> JStr s) \<Longrightarrow>
      deref (heap (setSessionId this sid w)) (length (heap w)) = [(''sessionId'', sid)]"
    by (simp add: new own_props_def object_assign_Cons object_assign_Nil split: jsval.splits)
  have str: "logger_ok this w \<Longrightarrow>
      js_get (deref (heap w) (contextData this)) ''context'' = JStr s \<Longrightarrow>
      (\<forall>i. i < length s \<longrightarrow>
          js_get (deref (heap (setSessionId this sid w)) (length (heap w))) (show_nat i)
            = JStr [s ! i])
      \<and> fst ` set (deref (heap (setSessionId this sid w)) (length (heap w)))
            = insert ''sessionId'' (show_nat ` {..<length s})" for s
  proof -
    assume ok: "logger_ok this w"
      and s: "js_get (deref (heap w) (contextData this)) ''context'' = JStr s"
    note m = merged_object [OF string_props_distinct [of "heap w" s], of sid]
    have keys: "fst ` set (own_props (heap w) (JStr s)) = show_nat ` {..<length s}"
      using string_props_keys [of "heap w" s]
      by (metis atLeast0LessThan list.set_map set_upt)
    show ?thesis
      using ok s m keys
      by (simp add: new string_props_get show_nat_not_sessionId)
  qed
  have events: "logger_ok this w \<Longrightarrow>
      emission_reads_own mds this message extra (effective_level mds sev) w \<Longrightarrow>
      output mds this message extra sev (setSessionId this sid w)
        = (setSessionId this sid w)
            \<lparr>console := console (output mds this message extra sev w)\<rparr>"
    for mds message extra sev
    using output_unaffected [OF setSessionId_differs]
    by (simp add: logger_ok_def)
  have built: "(let (l, w1) = new_Logger md options extraParameters w0;
           w2 = setSessionId l sid w1
       in s_contextData (serializer l) = JRef (length (heap w0) + 1)
          \<and> js_get (deref (heap w2) (length (heap w0) + 1)) ''context''
               = js_get (normalizeArguments md (heap w0) options extraParameters) ''context''
          \<and> js_get (deref (heap w2) (contextData l)) ''context'' = JRef (length (heap w1)))"
    by (simp add: new_Logger_eq setSessionId_eq Let_def deref_list_update deref_append
          deref_Cons js_get_update js_simps)
  have first: "logger_ok this w \<longrightarrow>
     (let w' = setSessionId this sid w; m = length (heap w);
          old = js_get (deref (heap w) (contextData this)) ''context''
      in js_get (deref (heap w') (contextData this)) ''context'' = JRef m
         \<and> deref (heap w') m
              = object_assign (object_assign [] (own_props (heap w) old)) [(''sessionId'', sid)]
         \<and> js_get (deref (heap w') m) ''sessionId'' = sid
         \<and> (\<forall>c. old = JRef c \<and> distinct (map fst (deref (heap w) c)) \<longrightarrow>
               (\<forall>k. k \<noteq> ''sessionId'' \<longrightarrow>
                  js_get (deref (heap w') m) k = js_get (deref (heap w) c) k)
               \<and> fst ` set (deref (heap w') m)
                    = insert ''sessionId'' (fst ` set (deref (heap w) c)))
         \<and> ((\<forall>c. old \<noteq> JRef c) \<and> (\<forall>s. old \<noteq> JStr s) \<longrightarrow>
               deref (heap w') m = [(''sessionId'', sid)])
         \<and> (\<forall>s. old = JStr s \<longrightarrow>
               (\<forall>i. i < length s \<longrightarrow>
                  js_get (deref (heap w') m) (show_nat i) = JStr [s ! i])
               \<and> fst ` set (deref (heap w') m)
                    = insert ''sessionId'' (show_nat ` {..<length s}))
         \<and> (\<forall>k. k \<noteq> ''context'' \<longrightarrow>
               js_get (deref (heap w') (contextData this)) k
                 = js_get (deref (heap w) (contextData this)) k)
         \<and> (\<forall>a. a < length (heap w) \<and> a \<noteq> contextData this \<longrightarrow>
               deref (heap w') a = deref (heap w) a)
         \<and> (case s_contextData (serializer this) of
               JRef scd \<Rightarrow> deref (heap w') scd = deref (heap w) scd
             | _ \<Rightarrow> False)
         \<and> w' = w\<lparr>heap := heap w'\<rparr>
         \<and> logger_ok this w'
         \<and> (\<forall>mds message extra sev.
               emission_reads_own mds this message extra (effective_level mds sev) w \<longrightarrow>
               output mds this message extra sev w'
                 = w'\<lparr>console := console (output mds this message extra sev w)\<rparr>))"
  proof
    assume ok: "logger_ok this w"
    note f = frame [OF ok]
    show "let w' = setSessionId this sid w; m = length (heap w);
          old = js_get (deref (heap w) (contextData this)) ''context''
      in js_get (deref (heap w') (contextData this)) ''context'' = JRef m
         \<and> deref (heap w') m
              = object_assign (object_assign [] (own_props (heap w) old)) [(''sessionId'', sid)]
         \<and> js_get (deref (heap w') m) ''sessionId'' = sid
         \<and> (\<forall>c. old = JRef c \<and> distinct (map fst (deref (heap w) c)) \<longrightarrow>
               (\<forall>k. k \<noteq> ''sessionId'' \<longrightarrow>
                  js_get (deref (heap w') m) k = js_get (deref (heap w) c) k)
               \<and> fst ` set (deref (heap w') m)
                    = insert ''sessionId'' (fst ` set (deref (heap w) c)))
         \<and> ((\<forall>c. old \<noteq> JRef c) \<and> (\<forall>s. old \<noteq> JStr s) \<longrightarrow>
               deref (heap w') m = [(''sessionId'', sid)])
         \<and> (\<forall>s. old = JStr s \<longrightarrow>
               (\<forall>i. i < length s \<longrightarrow>
                  js_get (deref (heap w') m) (show_nat i) = JStr [s ! i])
               \<and> fst ` set (deref (heap w') m)
                    = insert ''sessionId'' (show_nat ` {..<length s}))
         \<and> (\<forall>k. k \<noteq> ''context'' \<longrightarrow>
               js_get (deref (heap w') (contextData this)) k
                 = js_get (deref (heap w) (contextData this)) k)
         \<and> (\<forall>a. a < length (heap w) \<and> a \<noteq> contextData this \<longrightarrow>
               deref (heap w') a = deref (heap w) a)
         \<and> (case s_contextData (serializer this) of
               JRef scd \<Rightarrow> deref (heap w') scd = deref (heap w) scd
             | _ \<Rightarrow> False)
         \<and> w' = w\<lparr>heap := heap w'\<rparr>
         \<and> logger_ok this w'
         \<and> (\<forall>mds message extra sev.
               emission_reads_own mds this message extra (effective_level mds sev) w \<longrightarrow>
               output mds this message extra sev w'
                 = w'\<lparr>console := console (output mds this message extra sev w)\<rparr>)"
      unfolding Let_def
    proof (intro conjI allI impI)
      show "js_get (deref (heap (setSessionId this sid w)) (contextData this)) ''context''
              = JRef (length (heap w))"
        using f by (rule conjunct1)
      show "deref (heap (setSessionId this sid w)) (length (heap w))
              = object_assign
                  (object_assign []
                     (own_props (heap w) (js_get (deref (heap w) (contextData this)) ''context'')))
                  [(''sessionId'', sid)]"
        by (rule new [OF ok])
      show "js_get (deref (heap (setSessionId this sid w)) (length (heap w))) ''sessionId'' = sid"
        by (rule sid [OF ok])
      show "setSessionId this sid w = w\<lparr>heap := heap (setSessionId this sid w)\<rparr>"
        using f by (elim conjE)
      show "logger_ok this (setSessionId this sid w)"
        using f by (elim conjE)
      show "case s_contextData (serializer this) of
               JRef scd \<Rightarrow> deref (heap (setSessionId this sid w)) scd = deref (heap w) scd
             | _ \<Rightarrow> False"
        using f by (elim conjE)
    next
      fix c k
      assume c: "js_get (deref (heap w) (contextData this)) ''context'' = JRef c
                   \<and> distinct (map fst (deref (heap w) c))"
      note m = merge [OF ok conjunct1 [OF c] conjunct2 [OF c]]
      show "fst ` set (deref (heap (setSessionId this sid w)) (length (heap w)))
              = insert ''sessionId'' (fst ` set (deref (heap w) c))"
        by (rule conjunct2 [OF m])
      assume "k \<noteq> ''sessionId''"
      then show "js_get (deref (heap (setSessionId this sid w)) (length (heap w))) k
                   = js_get (deref (heap w) c) k"
        using conjunct1 [OF m] by blast
    next
      fix s i
      assume s: "js_get (deref (heap w) (contextData this)) ''context'' = JStr s"
      note t = str [OF ok s]
      show "fst ` set (deref (heap (setSessionId this sid w)) (length (heap w)))
              = insert ''sessionId'' (show_nat ` {..<length s})"
        by (rule conjunct2 [OF t])
      assume "i < length s"
      then show "js_get (deref (heap (setSessionId this sid w)) (length (heap w))) (show_nat i)
                   = JStr [s ! i]"
        using conjunct1 [OF t] by blast
    next
      assume "(\<forall>c. js_get (deref (heap w) (contextData this)) ''context'' \<noteq> JRef c)
                \<and> (\<forall>s. js_get (deref (heap w) (contextData this)) ''context'' \<noteq> JStr s)"
      then show "deref (heap (setSessionId this sid w)) (length (heap w)) = [(''sessionId'', sid)]"
        using prim [OF ok] by blast
    next
      fix k :: string
      assume "k \<noteq> ''context''"
      then show "js_get (deref (heap (setSessionId this sid w)) (contextData this)) k
                   = js_get (deref (heap w) (contextData this)) k"
        using f by blast
    next
      fix a
      assume "a < length (heap w) \<and> a \<noteq> contextData this"
      then show "deref (heap (setSessionId this sid w)) a = deref (heap w) a"
        using f by blast
    next
      fix mds message extra sev
      assume "emission_reads_own mds this message extra (effective_level mds sev) w"
      then show "output mds this message extra sev (setSessionId this sid w)
                   = (setSessionId this sid w)
                       \<lparr>console := console (output mds this message extra sev w)\<rparr>"
        by (rule events [OF ok])
    qed
  qed
  from first built show ?thesis
    by (rule conjI)
qed

text \<open>
  Claim C9 at a logger built on the context \<open>{ user: 'u' }\<close>: the merge holds \<open>user\<close> and
  \<open>sessionId\<close>, the serializer's object and the old context are unchanged, and the line
  written afterwards shows the user and no session identifier.
\<close>

theorem setSessionId_effect_witness:
  "logger_ok user_logger user_world1
   \<and> emission_reads_own reading_modules user_logger (JStr ''m'') JNull
         (effective_level reading_modules (JStr ''error'')) user_world1
   \<and> js_get (deref (heap user_world1) (contextData user_logger)) ''context'' = JRef 0
   \<and> distinct (map fst (deref (heap user_world1) 0))
   \<and> js_get (deref (heap (setSessionId user_logger (JStr ''s1'') user_world1)) 2) ''context''
        = JRef 4
   \<and> js_get (deref (heap (setSessionId user_logger (JStr ''s1'') user_world1)) 4) ''user''
        = JStr ''u''
   \<and> js_get (deref (heap (setSessionId user_logger (JStr ''s1'') user_world1)) 4) ''sessionId''
        = JStr ''s1''
   \<and> deref (heap (setSessionId user_logger (JStr ''s1'') user_world1)) 0
        = [(''user'', JStr ''u'')]
   \<and> deref (heap (setSessionId user_logger (JStr ''s1'') user_world1)) 3
        = [(''context'', JRef 0), (''name'', JUndefined)]
   \<and> console (output reading_modules user_logger (JStr ''m'') JNull (JStr ''error'')
                 (setSessionId user_logger (JStr ''s1'') user_world1))
        = [''message=m user=u '']"
proof -
  have ok: "logger_ok user_logger user_world1"
    by (simp add: logger_ok_def user_logger_eq user_world1_eq)
  have lvl: "effective_level reading_modules (JStr ''error'') = JStr ''error''"
    by (simp add: effective_level_def)
  have own: "emission_reads_own reading_modules user_logger (JStr ''m'') JNull
               (effective_level reading_modules (JStr ''error'')) user_world1"
    using user_emission_reads_own by (simp add: lvl)
  have cd: "contextData user_logger = 2"
    by (simp add: user_logger_eq)
  have len: "length (heap user_world1) = 4"
    by (simp add: user_world1_eq)
  have cells: "deref (heap user_world1) 0 = [(''user'', JStr ''u'')]"
    "deref (heap user_world1) 2 = [(''context'', JRef 0), (''name'', JUndefined)]"
    "deref (heap user_world1) 3 = [(''context'', JRef 0), (''name'', JUndefined)]"
    by (simp_all add: user_world1_eq deref_Cons)
  have before: "console (output reading_modules user_logger (JStr ''m'') JNull (JStr ''error'')
                   user_world1) = [''message=m user=u '']"
    by (simp add: output_emit_at emit_at_def both_allow_def event_line_def apply_format_def lvl
          user_logger_eq reading_modules_def own_props_def cells js_simps)
       (simp add: user_world1_eq)
  note t = setSessionId_effect [where this = user_logger and w = user_world1
             and sid = "JStr ''s1''", THEN conjunct1, rule_format, OF ok, unfolded Let_def]
  show ?thesis
    using ok own t before
    by (simp add: cd len cells js_simps own_props_def)
qed

section \<open>Defaults of a child logger\<close>

text \<open>
  Claim C10. The child does not depend on the parent's \<open>logLevel\<close> and \<open>logLimit\<close>: both are
  the defaults derived from the environment, which are the level \<open>error\<close> and 7000 when the
  variables are unset.
\<close>

theorem child_logger_defaults:
  "createChildLogger md (this\<lparr>logLevel := lv, logLimit := lim\<rparr>) ns w
      = createChildLogger md this ns w
   \<and> (let c = fst (createChildLogger md this ns w)
      in logLevel c = js_get (DEFAULT_LOGGER_ATTRIBUTES md) ''logLevel''
         \<and> logLimit c = js_get (DEFAULT_LOGGER_ATTRIBUTES md) ''logLimit''
         \<and> s_logLimit (serializer c) = js_get (DEFAULT_LOGGER_ATTRIBUTES md) ''logLimit''
         \<and> (LOG_LEVEL (load_env md) = None \<longrightarrow> logLevel c = level_error (loggerLevels md))
         \<and> (LOG_LIMIT (load_env md) = None \<longrightarrow> logLimit c = JNum 7000))"
  by (simp add: createChildLogger_eq Let_def js_simps DEFAULT_LOGGER_ATTRIBUTES_def
        js_or_def env_var_def)

text \<open>
  Claim C10 with a parent at the threshold \<open>debug\<close> and the limit 10.
\<close>

theorem child_logger_defaults_witness:
  "LOG_LEVEL (load_env demo_modules) = None \<and> LOG_LIMIT (load_env demo_modules) = None
   \<and> logLevel (fst (createChildLogger demo_modules
                      (demo_logger\<lparr>logLevel := JStr ''debug'', logLimit := JNum 10\<rparr>)
                      (JStr ''child'') demo_world1)) = JStr ''error''
   \<and> logLimit (fst (createChildLogger demo_modules
                      (demo_logger\<lparr>logLevel := JStr ''debug'', logLimit := JNum 10\<rparr>)
                      (JStr ''child'') demo_world1)) = JNum 7000"
proof -
  have unset: "LOG_LEVEL (load_env demo_modules) = None" "LOG_LIMIT (load_env demo_modules) = None"
    by (simp_all add: demo_modules_def demo_env_def)
  have lvl: "level_error (loggerLevels demo_modules) = JStr ''error''"
    by (simp add: demo_modules_def demo_levels_def)
  show ?thesis
    using child_logger_defaults [where md = demo_modules and lv = "JStr ''debug''"
            and lim = "JNum 10" and this = demo_logger and ns = "JStr ''child''"
            and w = demo_world1]
    by (simp add: unset lvl Let_def DEFAULT_LOGGER_ATTRIBUTES_def js_or_def env_var_def js_simps)
qed

end
